theory Spec2Isabelle
  imports Complex_Main
begin

section \<open>GameManager: the data it handles\<close>

text \<open>
  A shallow embedding of \<^verbatim>\<open>src/Backend/GameLogic/GameManager.ts\<close>.  Identifiers are the
  hexadecimal strings of the source.  World coordinates and the world radius are
  integers (the ledger stores them as such), held in JavaScript numbers: arithmetic on
  them rounds to the nearest double, which the model writes out where the source
  computes with them.
\<close>

type_synonym LocationId = string
type_synonym ArtifactId = string
type_synonym EthAddress = string
type_synonym VoyageId = string

text \<open>JavaScript truthiness of a value of type \<^verbatim>\<open>string | undefined\<close>.\<close>

fun truthy :: "string option \<Rightarrow> bool" where
  "truthy None = False"
| "truthy (Some s) = (s \<noteq> [])"

record WorldCoords =
  coord_x :: int
  coord_y :: int

record WorldLocation =
  coords :: WorldCoords
  hash :: LocationId
  perlin :: int
  biomebase :: int

record RevealedCoords =
  rc_coords :: WorldCoords
  rc_hash :: LocationId
  rc_revealer :: EthAddress

record RevealedLocation =
  rl_location :: WorldLocation
  revealer :: EthAddress

record QueuedArrival =
  eventId :: VoyageId
  fromPlanet :: LocationId
  toPlanet :: LocationId

record Artifact =
  artifact_id :: ArtifactId
  activated :: bool

text \<open>
  A pending player action.  \<^verbatim>\<open>TxIntent\<close> is a union tagged by its \<^verbatim>\<open>type\<close> field; the
  guards \<^verbatim>\<open>isUnconfirmedMove\<close>, \<^verbatim>\<open>isUnconfirmedReveal\<close>, ... test that tag, so they
  are the case distinction of this datatype.  The first argument is always the action id.
  \<^verbatim>\<open>UnconfirmedOther\<close> stands for the kinds the handlers have no branch for.
\<close>

datatype EthTxType =
    REVEAL_LOCATION | PLAYER_INIT | MOVE | UPGRADE | BUY_HAT | PLANET_TRANSFER
  | FIND_ARTIFACT | PROSPECT_PLANET | DEPOSIT_ARTIFACT | WITHDRAW_ARTIFACT
  | ACTIVATE_ARTIFACT | DEACTIVATE_ARTIFACT | WITHDRAW_SILVER | OTHER_TX

datatype TxIntent =
    UnconfirmedReveal string LocationId WorldLocation
  | UnconfirmedInit string LocationId
  | UnconfirmedMove string LocationId LocationId real real "ArtifactId option"
  | UnconfirmedUpgrade string LocationId int
  | UnconfirmedBuyHat string LocationId
  | UnconfirmedPlanetTransfer string LocationId EthAddress
  | UnconfirmedFindArtifact string LocationId
  | UnconfirmedProspectPlanet string LocationId
  | UnconfirmedDepositArtifact string LocationId ArtifactId
  | UnconfirmedWithdrawArtifact string LocationId ArtifactId
  | UnconfirmedActivateArtifact string LocationId ArtifactId "LocationId option"
  | UnconfirmedDeactivateArtifact string LocationId ArtifactId
  | UnconfirmedWithdrawSilver string LocationId real
  | UnconfirmedOther string

fun tx_type :: "TxIntent \<Rightarrow> EthTxType" where
  "tx_type (UnconfirmedReveal _ _ _) = REVEAL_LOCATION"
| "tx_type (UnconfirmedInit _ _) = PLAYER_INIT"
| "tx_type (UnconfirmedMove _ _ _ _ _ _) = MOVE"
| "tx_type (UnconfirmedUpgrade _ _ _) = UPGRADE"
| "tx_type (UnconfirmedBuyHat _ _) = BUY_HAT"
| "tx_type (UnconfirmedPlanetTransfer _ _ _) = PLANET_TRANSFER"
| "tx_type (UnconfirmedFindArtifact _ _) = FIND_ARTIFACT"
| "tx_type (UnconfirmedProspectPlanet _ _) = PROSPECT_PLANET"
| "tx_type (UnconfirmedDepositArtifact _ _ _) = DEPOSIT_ARTIFACT"
| "tx_type (UnconfirmedWithdrawArtifact _ _ _) = WITHDRAW_ARTIFACT"
| "tx_type (UnconfirmedActivateArtifact _ _ _ _) = ACTIVATE_ARTIFACT"
| "tx_type (UnconfirmedDeactivateArtifact _ _ _) = DEACTIVATE_ARTIFACT"
| "tx_type (UnconfirmedWithdrawSilver _ _ _) = WITHDRAW_SILVER"
| "tx_type (UnconfirmedOther _) = OTHER_TX"

text \<open>A \<^verbatim>\<open>SubmittedTx\<close> is an intent together with its transaction hash.\<close>

record SubmittedTx =
  intent :: TxIntent
  txHash :: string

record Planet =
  locationId :: LocationId
  owner :: EthAddress
  location :: "WorldLocation option"
  coordsRevealed :: bool
  unconfirmedReveal :: "TxIntent option"
  heldArtifactIds :: "ArtifactId list"

record Rectangle =
  bottomLeft :: WorldCoords
  sideLength :: int

record Chunk =
  chunkFootprint :: Rectangle
  planetLocations :: "WorldLocation list"

text \<open>A thrown JavaScript error with its message.\<close>

datatype error = Error string | TypeError string

fun message :: "error \<Rightarrow> string" where
  "message (Error m) = m"
| "message (TypeError m) = m"

section \<open>Calls on collaborators\<close>

text \<open>
  GameManager holds no entity itself: it calls the ledger (\<^verbatim>\<open>contractsAPI\<close>), the proof
  generator (\<^verbatim>\<open>snarkHelper\<close>), the entity store (\<^verbatim>\<open>entityStore\<close>, class GameObjects),
  the chunk store, the miner, the notification manager, the terminal and the browser.
  None of these classes is part of GameManager.ts, so a call that changes one of them or
  goes to the network is recorded, in order, in a log of the following events; what a
  ledger read answers is an input of the model.

  \<open>Api_submit t\<close> is the call of the write method of \<^verbatim>\<open>contractsAPI\<close> for the kind of
  \<open>t\<close> (\<^verbatim>\<open>reveal\<close>, \<^verbatim>\<open>move\<close>, \<^verbatim>\<open>upgradePlanet\<close>, ...) with the data of \<open>t\<close>.  The
  arguments of the proof generator and the colours of the terminal are left out.
\<close>

datatype effect =
    Api_getPlanetById LocationId
  | Api_getArrivalsForPlanet LocationId
  | Api_bulkGetArtifactsOnPlanets "LocationId list"
  | Api_getRevealedCoordsByIdIfExists LocationId
  | Api_getAllArrivals "LocationId list"
  | Api_bulkGetPlanets "LocationId list"
  | Api_getArtifactById ArtifactId
  | Api_submit TxIntent
  | Snark_getRevealArgs
  | Snark_getMoveArgs
  | Snark_getFindArtifactArgs
  | Store_onTxIntent TxIntent
  | Store_clearUnconfirmedTxIntent TxIntent
  | Store_replacePlanetFromContractData Planet "QueuedArrival list option"
      "ArtifactId list option" "RevealedLocation option"
  | Store_replaceArtifactFromContractData Artifact
  | Store_replaceArtifactsFromContractData "Artifact list"
  | Store_addPlanetLocation WorldLocation
  | ChunkStore_onEthTxComplete string
  | ChunkStore_addChunk Chunk bool
  | Miner_startExplore
  | Miner_stopExplore
  | Emit_DiscoveredNewChunk Chunk
  | LocalStorage_setItem string string
  | Notif_txConfirm SubmittedTx
  | Notif_txRevert SubmittedTx
  | Notif_unsubmittedTxFail TxIntent error
  | Terminal_print string
  | Terminal_printLink string
  | Terminal_println string
  | Terminal_newline
  | Console_error string

text \<open>The reads of the ledger, the ones that fetch an entity or its dependants.\<close>

fun is_ledger_read :: "effect \<Rightarrow> bool" where
  "is_ledger_read (Api_getPlanetById _) = True"
| "is_ledger_read (Api_getArrivalsForPlanet _) = True"
| "is_ledger_read (Api_bulkGetArtifactsOnPlanets _) = True"
| "is_ledger_read (Api_getRevealedCoordsByIdIfExists _) = True"
| "is_ledger_read (Api_getAllArrivals _) = True"
| "is_ledger_read (Api_bulkGetPlanets _) = True"
| "is_ledger_read (Api_getArtifactById _) = True"
| "is_ledger_read _ = False"

text \<open>The calls that overwrite an entity of the store with ledger data.\<close>

fun is_store_replace :: "effect \<Rightarrow> bool" where
  "is_store_replace (Store_replacePlanetFromContractData _ _ _ _) = True"
| "is_store_replace (Store_replaceArtifactFromContractData _) = True"
| "is_store_replace (Store_replaceArtifactsFromContractData _) = True"
| "is_store_replace _ = False"

text \<open>
  What the ledger answers.  Every read is asynchronous and may be rejected
  (\<open>Inl\<close>); \<^verbatim>\<open>bulkGetPlanets\<close> answers a Map, kept as an association list because the
  source iterates over it.
\<close>

record ContractsAPI =
  api_getPlanetById :: "LocationId \<Rightarrow> error + Planet option"
  api_getArrivalsForPlanet :: "LocationId \<Rightarrow> error + QueuedArrival list"
  api_bulkGetArtifactsOnPlanets :: "LocationId list \<Rightarrow> error + Artifact list list"
  api_getRevealedCoordsByIdIfExists :: "LocationId \<Rightarrow> error + RevealedCoords option"
  api_getAllArrivals :: "LocationId list \<Rightarrow> error + QueuedArrival list"
  api_bulkGetPlanets :: "LocationId list \<Rightarrow> error + (LocationId \<times> Planet) list"
  api_getArtifactById :: "ArtifactId \<Rightarrow> error + Artifact option"

text \<open>
  The hash and noise functions come from the package \<^verbatim>\<open>@darkforest_eth/hashing\<close>; they
  are parameters.
\<close>

record Hashing =
  planetHashMimc :: "int \<Rightarrow> int \<Rightarrow> LocationId"
  spaceTypePerlin :: "WorldCoords \<Rightarrow> bool \<Rightarrow> int"
  biomebasePerlin :: "WorldCoords \<Rightarrow> bool \<Rightarrow> int"

section \<open>Asynchronous functions\<close>

text \<open>
  An \<^verbatim>\<open>async\<close> function is run to its end: the result is the log of the calls it made
  and either the value it resolved with or the error it was rejected with.  An
  \<^verbatim>\<open>await\<close> of a rejected promise rejects the awaiting function at that point.
\<close>

type_synonym 'a promise = "effect list \<times> (error + 'a)"

definition returnT :: "'a \<Rightarrow> 'a promise" where
  "returnT a = ([], Inr a)"

definition throwT :: "error \<Rightarrow> 'a promise" where
  "throwT e = ([], Inl e)"

definition bindT :: "'a promise \<Rightarrow> ('a \<Rightarrow> 'b promise) \<Rightarrow> 'b promise" where
  "bindT m k =
     (case snd m of
        Inl e \<Rightarrow> (fst m, Inl e)
      | Inr a \<Rightarrow> (fst m @ fst (k a), snd (k a)))"

definition await_call :: "effect \<Rightarrow> error + 'a \<Rightarrow> 'a promise" where
  "await_call c r = ([c], r)"

definition doT :: "effect list \<Rightarrow> unit promise" where
  "doT cs = (cs, Inr ())"

text \<open>
  \<^verbatim>\<open>Promise.all([p, q])\<close> of two functions that have both been started: both run to
  their end whatever the other does, and the whole is rejected when one of them is.
  The log lists the calls of \<open>p\<close> before those of \<open>q\<close>; the order in which the two
  really interleave is not fixed by the source.
\<close>

definition allT :: "unit promise \<Rightarrow> unit promise \<Rightarrow> unit promise" where
  "allT p q =
     (fst p @ fst q, (case snd p of Inl e \<Rightarrow> Inl e | Inr _ \<Rightarrow> snd q))"

section \<open>Refreshing entities from the ledger\<close>

definition locationFromCoords :: "Hashing \<Rightarrow> WorldCoords \<Rightarrow> WorldLocation" where
  "locationFromCoords h c =
     \<lparr> coords = c,
       hash = planetHashMimc h (coord_x c) (coord_y c),
       perlin = spaceTypePerlin h c True,
       biomebase = biomebasePerlin h c True \<rparr>"

definition softRefreshPlanet :: "ContractsAPI \<Rightarrow> LocationId \<Rightarrow> unit promise" where
  "softRefreshPlanet api planetId =
     bindT (await_call (Api_getPlanetById planetId) (api_getPlanetById api planetId))
       (\<lambda>planet. case planet of
          None \<Rightarrow> returnT ()
        | Some p \<Rightarrow> doT [Store_replacePlanetFromContractData p None None None])"

definition hardRefreshPlanet :: "Hashing \<Rightarrow> ContractsAPI \<Rightarrow> LocationId \<Rightarrow> unit promise" where
  "hardRefreshPlanet h api planetId =
     bindT (await_call (Api_getPlanetById planetId) (api_getPlanetById api planetId))
       (\<lambda>planet. case planet of
          None \<Rightarrow> returnT ()
        | Some p \<Rightarrow>
     bindT (await_call (Api_getArrivalsForPlanet planetId)
              (api_getArrivalsForPlanet api planetId))
       (\<lambda>arrivals.
     bindT (await_call (Api_bulkGetArtifactsOnPlanets [planetId])
              (api_bulkGetArtifactsOnPlanets api [planetId]))
       (\<lambda>artifactsOnPlanets.
     bindT (await_call (Api_getRevealedCoordsByIdIfExists planetId)
              (api_getRevealedCoordsByIdIfExists api planetId))
       (\<lambda>revealedCoords.
          let revealedLocation =
                (case revealedCoords of
                   None \<Rightarrow> None
                 | Some rc \<Rightarrow>
                     Some \<lparr> rl_location = locationFromCoords h (rc_coords rc),
                            revealer = rc_revealer rc \<rparr>)
          in (case artifactsOnPlanets of
                [] \<Rightarrow> throwT (TypeError ''artifactsOnPlanet is undefined'')
              | artifactsOnPlanet # _ \<Rightarrow>
                  doT (Store_replacePlanetFromContractData p (Some arrivals)
                         (Some (map artifact_id artifactsOnPlanet)) revealedLocation
                       # map Store_replaceArtifactFromContractData artifactsOnPlanet))))))"

text \<open>
  The loop over \<^verbatim>\<open>planetIds\<close> of \<^verbatim>\<open>bulkHardRefreshPlanets\<close>, with its index \<open>i\<close>;
  \<^verbatim>\<open>artifactsOnPlanets[i]\<close> beyond the array is \<^verbatim>\<open>undefined\<close>, whose \<^verbatim>\<open>map\<close> throws.
\<close>

fun bulk_replace_loop ::
  "(LocationId \<rightharpoonup> Planet) \<Rightarrow> (LocationId \<rightharpoonup> QueuedArrival list) \<Rightarrow> Artifact list list
    \<Rightarrow> LocationId list \<Rightarrow> nat \<Rightarrow> unit promise" where
  "bulk_replace_loop pm pvm arts [] i = returnT ()"
| "bulk_replace_loop pm pvm arts (planetId # rest) i =
     (case pm planetId of
        None \<Rightarrow> bulk_replace_loop pm pvm arts rest (Suc i)
      | Some p \<Rightarrow>
          (case pvm (locationId p) of
             None \<Rightarrow> bulk_replace_loop pm pvm arts rest (Suc i)
           | Some voyagesForPlanet \<Rightarrow>
               if i < length arts
               then bindT (doT [Store_replacePlanetFromContractData p (Some voyagesForPlanet)
                                  (Some (map artifact_id (arts ! i))) None])
                      (\<lambda>_. bulk_replace_loop pm pvm arts rest (Suc i))
               else throwT (TypeError ''artifactsOnPlanets[i] is undefined'')))"

definition planetVoyageMap ::
  "(LocationId \<times> Planet) list \<Rightarrow> QueuedArrival list \<Rightarrow> (LocationId \<rightharpoonup> QueuedArrival list)" where
  "planetVoyageMap planetsToUpdateMap allVoyages =
     foldl (\<lambda>m voyage. case m (toPlanet voyage) of
                          None \<Rightarrow> m
                        | Some vs \<Rightarrow> m(toPlanet voyage \<mapsto> vs @ [voyage]))
       (map_of (map (\<lambda>(locId, p). (locId, [])) planetsToUpdateMap))
       allVoyages"

definition bulkHardRefreshPlanets :: "ContractsAPI \<Rightarrow> LocationId list \<Rightarrow> unit promise" where
  "bulkHardRefreshPlanets api planetIds =
     bindT (await_call (Api_getAllArrivals planetIds) (api_getAllArrivals api planetIds))
       (\<lambda>allVoyages.
     bindT (await_call (Api_bulkGetPlanets planetIds) (api_bulkGetPlanets api planetIds))
       (\<lambda>planetsToUpdateMap.
     bindT (await_call (Api_bulkGetArtifactsOnPlanets planetIds)
              (api_bulkGetArtifactsOnPlanets api planetIds))
       (\<lambda>artifactsOnPlanets.
     bindT (bulk_replace_loop (map_of planetsToUpdateMap)
              (planetVoyageMap planetsToUpdateMap allVoyages) artifactsOnPlanets planetIds 0)
       (\<lambda>_. doT (map Store_replaceArtifactsFromContractData artifactsOnPlanets)))))"

definition hardRefreshArtifact :: "ContractsAPI \<Rightarrow> ArtifactId \<Rightarrow> unit promise" where
  "hardRefreshArtifact api artifactId =
     bindT (await_call (Api_getArtifactById artifactId) (api_getArtifactById api artifactId))
       (\<lambda>artifact. case artifact of
          None \<Rightarrow> returnT ()
        | Some a \<Rightarrow> doT [Store_replaceArtifactFromContractData a])"

section \<open>The state of the GameManager\<close>

text \<open>
  The entity store (class GameObjects) as far as GameManager reads it: the planets and
  artifacts by id, the mined locations by id, the ids known to exist on the ledger and
  the reveal that is in flight.
\<close>

record GameObjects =
  planets :: "LocationId \<rightharpoonup> Planet"
  artifacts :: "ArtifactId \<rightharpoonup> Artifact"
  planetLocationMap :: "LocationId \<rightharpoonup> WorldLocation"
  touchedPlanetIds :: "LocationId set"
  store_unconfirmedReveal :: "TxIntent option"

record Player =
  lastRevealTimestamp :: int

text \<open>The miner (class MinerManager) is a handle for GameManager: it is there or not.\<close>

datatype MinerManager = MinerManager

datatype jsnumber = Num real | PosInfinity | NegInfinity | NaN

record GameManager =
  entityStore :: GameObjects
  terminal_current :: bool
  account :: "EthAddress option"
  players :: "EthAddress \<rightharpoonup> Player"
  contractsAPI :: ContractsAPI
  hashing :: Hashing
  LOCATION_REVEAL_COOLDOWN :: int
  endTimeSeconds :: int
  minerManager :: "MinerManager option"
  hashRate :: jsnumber
  worldRadius :: int

text \<open>\<^verbatim>\<open>this.terminal.current?.m(...)\<close>: the call is made when a terminal is attached.\<close>

definition term_out :: "GameManager \<Rightarrow> effect list \<Rightarrow> effect list" where
  "term_out gm es = (if terminal_current gm then es else [])"

text \<open>The text of a transaction type in a message; the member's name stands for the value
  the enum gives it.\<close>

fun EthTxType_str :: "EthTxType \<Rightarrow> string" where
  "EthTxType_str REVEAL_LOCATION = ''REVEAL_LOCATION''"
| "EthTxType_str PLAYER_INIT = ''PLAYER_INIT''"
| "EthTxType_str MOVE = ''MOVE''"
| "EthTxType_str UPGRADE = ''UPGRADE''"
| "EthTxType_str BUY_HAT = ''BUY_HAT''"
| "EthTxType_str PLANET_TRANSFER = ''PLANET_TRANSFER''"
| "EthTxType_str FIND_ARTIFACT = ''FIND_ARTIFACT''"
| "EthTxType_str PROSPECT_PLANET = ''PROSPECT_PLANET''"
| "EthTxType_str DEPOSIT_ARTIFACT = ''DEPOSIT_ARTIFACT''"
| "EthTxType_str WITHDRAW_ARTIFACT = ''WITHDRAW_ARTIFACT''"
| "EthTxType_str ACTIVATE_ARTIFACT = ''ACTIVATE_ARTIFACT''"
| "EthTxType_str DEACTIVATE_ARTIFACT = ''DEACTIVATE_ARTIFACT''"
| "EthTxType_str WITHDRAW_SILVER = ''WITHDRAW_SILVER''"
| "EthTxType_str OTHER_TX = ''OTHER_TX''"

section \<open>The outcome of a submitted transaction\<close>

definition onTxConfirmed :: "GameManager \<Rightarrow> SubmittedTx \<Rightarrow> effect list" where
  "onTxConfirmed gm unminedTx =
     term_out gm
       [Terminal_print (''[TX CONFIRM] '' @ EthTxType_str (tx_type (intent unminedTx))
                          @ '' transaction (''),
        Terminal_printLink (take 6 (txHash unminedTx)),
        Terminal_println '') confirmed.'']
     @ [Notif_txConfirm unminedTx]"

definition onTxReverted :: "GameManager \<Rightarrow> SubmittedTx \<Rightarrow> effect list" where
  "onTxReverted gm unminedTx =
     term_out gm
       [Terminal_print (''[TX ERROR] '' @ EthTxType_str (tx_type (intent unminedTx))
                          @ '' transaction (''),
        Terminal_printLink (take 6 (txHash unminedTx)),
        Terminal_println '') reverted. Please try again.'']
     @ [Notif_txRevert unminedTx]"

text \<open>
  The refetch that the \<^verbatim>\<open>TxConfirmed\<close> listener awaits: its chain of
  \<^verbatim>\<open>if (isUnconfirmedX(tx)) ... else if ...\<close>.  For an artifact withdrawal the source
  awaits the planet before it starts on the artifact; the other pairs are started
  together.  A kind without a branch refetches nothing.
\<close>

fun confirmedRefetch :: "GameManager \<Rightarrow> TxIntent \<Rightarrow> unit promise" where
  "confirmedRefetch gm (UnconfirmedReveal _ locId _) =
     hardRefreshPlanet (hashing gm) (contractsAPI gm) locId"
| "confirmedRefetch gm (UnconfirmedMove _ fromId toId _ _ artifact) =
     allT (bulkHardRefreshPlanets (contractsAPI gm) [fromId, toId])
          (case artifact of
             None \<Rightarrow> returnT ()
           | Some a \<Rightarrow> if a \<noteq> [] then hardRefreshArtifact (contractsAPI gm) a else returnT ())"
| "confirmedRefetch gm (UnconfirmedUpgrade _ locId _) =
     hardRefreshPlanet (hashing gm) (contractsAPI gm) locId"
| "confirmedRefetch gm (UnconfirmedBuyHat _ locId) =
     hardRefreshPlanet (hashing gm) (contractsAPI gm) locId"
| "confirmedRefetch gm (UnconfirmedInit _ locId) =
     hardRefreshPlanet (hashing gm) (contractsAPI gm) locId"
| "confirmedRefetch gm (UnconfirmedFindArtifact _ planetId) =
     hardRefreshPlanet (hashing gm) (contractsAPI gm) planetId"
| "confirmedRefetch gm (UnconfirmedDepositArtifact _ locId artifactId) =
     allT (hardRefreshPlanet (hashing gm) (contractsAPI gm) locId)
          (hardRefreshArtifact (contractsAPI gm) artifactId)"
| "confirmedRefetch gm (UnconfirmedWithdrawArtifact _ locId artifactId) =
     bindT (hardRefreshPlanet (hashing gm) (contractsAPI gm) locId)
       (\<lambda>_. hardRefreshArtifact (contractsAPI gm) artifactId)"
| "confirmedRefetch gm (UnconfirmedProspectPlanet _ planetId) =
     softRefreshPlanet (contractsAPI gm) planetId"
| "confirmedRefetch gm (UnconfirmedActivateArtifact _ locId artifactId _) =
     allT (hardRefreshPlanet (hashing gm) (contractsAPI gm) locId)
          (hardRefreshArtifact (contractsAPI gm) artifactId)"
| "confirmedRefetch gm (UnconfirmedDeactivateArtifact _ locId artifactId) =
     allT (hardRefreshPlanet (hashing gm) (contractsAPI gm) locId)
          (hardRefreshArtifact (contractsAPI gm) artifactId)"
| "confirmedRefetch gm (UnconfirmedWithdrawSilver _ locId _) =
     softRefreshPlanet (contractsAPI gm) locId"
| "confirmedRefetch gm (UnconfirmedPlanetTransfer _ _ _) = returnT ()"
| "confirmedRefetch gm (UnconfirmedOther _) = returnT ()"

text \<open>The listener of \<^verbatim>\<open>ContractsAPIEvent.TxConfirmed\<close>.\<close>

definition txConfirmed :: "GameManager \<Rightarrow> SubmittedTx \<Rightarrow> unit promise" where
  "txConfirmed gm unconfirmedTx =
     bindT (doT [ChunkStore_onEthTxComplete (txHash unconfirmedTx)])
       (\<lambda>_.
     bindT (confirmedRefetch gm (intent unconfirmedTx))
       (\<lambda>_.
     doT (Store_clearUnconfirmedTxIntent (intent unconfirmedTx)
          # onTxConfirmed gm unconfirmedTx)))"

text \<open>The listener of \<^verbatim>\<open>ContractsAPIEvent.TxReverted\<close>; it awaits nothing.\<close>

definition txReverted :: "GameManager \<Rightarrow> SubmittedTx \<Rightarrow> effect list" where
  "txReverted gm unconfirmedTx =
     Store_clearUnconfirmedTxIntent (intent unconfirmedTx)
     # ChunkStore_onEthTxComplete (txHash unconfirmedTx)
     # onTxReverted gm unconfirmedTx"

text \<open>Calls that change the entity store.\<close>

fun is_store_write :: "effect \<Rightarrow> bool" where
  "is_store_write (Store_onTxIntent _) = True"
| "is_store_write (Store_clearUnconfirmedTxIntent _) = True"
| "is_store_write (Store_replacePlanetFromContractData _ _ _ _) = True"
| "is_store_write (Store_replaceArtifactFromContractData _) = True"
| "is_store_write (Store_replaceArtifactsFromContractData _) = True"
| "is_store_write (Store_addPlanetLocation _) = True"
| "is_store_write _ = False"

text \<open>Calls that go to the network: the ledger and the proof generator.\<close>

fun is_ledger_write :: "effect \<Rightarrow> bool" where
  "is_ledger_write (Api_submit _) = True"
| "is_ledger_write _ = False"

fun is_snark_call :: "effect \<Rightarrow> bool" where
  "is_snark_call Snark_getRevealArgs = True"
| "is_snark_call Snark_getMoveArgs = True"
| "is_snark_call Snark_getFindArtifactArgs = True"
| "is_snark_call _ = False"

definition is_network_call :: "effect \<Rightarrow> bool" where
  "is_network_call e = (is_ledger_read e \<or> is_ledger_write e \<or> is_snark_call e)"

section \<open>Reading the entity store\<close>

text \<open>
  Modelled from the spec: class GameObjects is not part of GameManager.ts, which only
  calls it.  The spec (4.4, 4.5) gives the store per-id lookups of entities and of mined
  locations and a set of touched ids, "populated at startup and grown as new on-ledger
  ids are learned", that decides whether an id exists on the ledger.
\<close>

definition getLocationOfPlanet :: "GameObjects \<Rightarrow> LocationId \<Rightarrow> WorldLocation option" where
  "getLocationOfPlanet es planetId = planetLocationMap es planetId"

definition getPlanetWithLocation :: "GameObjects \<Rightarrow> WorldLocation \<Rightarrow> Planet option" where
  "getPlanetWithLocation es loc = planets es (hash loc)"

definition getArtifactById :: "GameObjects \<Rightarrow> ArtifactId \<Rightarrow> Artifact option" where
  "getArtifactById es artifactId = artifacts es artifactId"

definition getUnconfirmedReveal :: "GameObjects \<Rightarrow> TxIntent option" where
  "getUnconfirmedReveal es = store_unconfirmedReveal es"

definition isPlanetInContract :: "GameObjects \<Rightarrow> LocationId \<Rightarrow> bool" where
  "isPlanetInContract es planetId = (planetId \<in> touchedPlanetIds es)"

text \<open>
  Modelled from the spec: \<^verbatim>\<open>GameObjects.getPlanetWithId\<close> is not part of
  GameManager.ts.  By the spec (4.4) the lookup of an entity by id "never mutates as a
  side effect (pure lookup)", so it is the stored planet; the second argument that
  \<^verbatim>\<open>getStalePlanetWithId\<close> passes to it has no counterpart in the spec.
\<close>

definition GameObjects_getPlanetWithId :: "GameObjects \<Rightarrow> LocationId \<Rightarrow> Planet option" where
  "GameObjects_getPlanetWithId es planetId = planets es planetId"

section \<open>Submitting an intent\<close>

definition onTxIntentFail :: "GameManager \<Rightarrow> TxIntent \<Rightarrow> error \<Rightarrow> effect list" where
  "onTxIntentFail gm txIntent e =
     Notif_unsubmittedTxFail txIntent e
     # term_out gm [Terminal_println (''[TX ERROR]: '' @ take 10000 (message e))]
     @ [Store_clearUnconfirmedTxIntent txIntent]"

text \<open>
  What the asynchronous collaborators answer to one submission: the proof generator
  resolves with the text of its arguments or is rejected, and so is the write to the
  ledger.
\<close>

record AsyncOutcomes =
  snark_result :: "error + string"
  submit_result :: "error + unit"

text \<open>
  The two shapes of the code that follows \<^verbatim>\<open>handleTxIntent(txIntent)\<close> in every method:
  \<^verbatim>\<open>snarkHelper.getXArgs(...).then(args => { print; return contractsAPI.x(...) })
  .catch(err => onTxIntentFail(txIntent, err))\<close>, and
  \<^verbatim>\<open>contractsAPI.x(...).catch(e => onTxIntentFail(txIntent, e))\<close>.
\<close>

definition submit_after_snark ::
  "GameManager \<Rightarrow> AsyncOutcomes \<Rightarrow> effect \<Rightarrow> string \<Rightarrow> TxIntent \<Rightarrow> effect list" where
  "submit_after_snark gm env snarkCall label txIntent =
     snarkCall
     # (case snark_result env of
          Inl err \<Rightarrow> onTxIntentFail gm txIntent err
        | Inr snarkArgs \<Rightarrow>
            term_out gm [Terminal_println label, Terminal_println snarkArgs, Terminal_newline]
            @ Api_submit txIntent
            # (case submit_result env of
                 Inl err \<Rightarrow> onTxIntentFail gm txIntent err
               | Inr _ \<Rightarrow> []))"

definition submit_directly ::
  "GameManager \<Rightarrow> AsyncOutcomes \<Rightarrow> effect list \<Rightarrow> TxIntent \<Rightarrow> effect list" where
  "submit_directly gm env printed txIntent =
     printed
     @ Api_submit txIntent
     # (case submit_result env of
          Inl e \<Rightarrow> onTxIntentFail gm txIntent e
        | Inr _ \<Rightarrow> [])"

text \<open>
  The submission of each kind of intent, as its method writes it (\<^verbatim>\<open>revealLocation\<close>,
  \<^verbatim>\<open>move\<close>, \<^verbatim>\<open>findArtifact\<close>, \<^verbatim>\<open>prospectPlanet\<close>, \<^verbatim>\<open>depositArtifact\<close>,
  \<^verbatim>\<open>withdrawArtifact\<close>, \<^verbatim>\<open>activateArtifact\<close>, \<^verbatim>\<open>deactivateArtifact\<close>,
  \<^verbatim>\<open>withdrawSilver\<close>, \<^verbatim>\<open>upgrade\<close>, \<^verbatim>\<open>buyHat\<close>, \<^verbatim>\<open>transferOwnership\<close>).  No method
  of GameManager.ts submits an intent of another kind.
\<close>

fun submitTxIntent :: "GameManager \<Rightarrow> AsyncOutcomes \<Rightarrow> TxIntent \<Rightarrow> effect list" where
  "submitTxIntent gm env (UnconfirmedReveal a l loc) =
     submit_after_snark gm env Snark_getRevealArgs ''REVEAL: calculated SNARK with args:''
       (UnconfirmedReveal a l loc)"
| "submitTxIntent gm env (UnconfirmedMove a f t fo si art) =
     submit_after_snark gm env Snark_getMoveArgs ''MOVE: calculated SNARK with args:''
       (UnconfirmedMove a f t fo si art)"
| "submitTxIntent gm env (UnconfirmedFindArtifact a p) =
     submit_after_snark gm env Snark_getFindArtifactArgs
       ''ARTIFACT: calculated SNARK with args:'' (UnconfirmedFindArtifact a p)"
| "submitTxIntent gm env (UnconfirmedProspectPlanet a p) =
     submit_directly gm env [] (UnconfirmedProspectPlanet a p)"
| "submitTxIntent gm env (UnconfirmedDepositArtifact a l ar) =
     submit_directly gm env
       (term_out gm [Terminal_println ''DEPOSIT_ARTIFACT: sending deposit to blockchain'',
                     Terminal_newline])
       (UnconfirmedDepositArtifact a l ar)"
| "submitTxIntent gm env (UnconfirmedWithdrawArtifact a l ar) =
     submit_directly gm env
       (term_out gm [Terminal_println ''WITHDRAW_ARTIFACT: sending withdrawal to blockchain'',
                     Terminal_newline])
       (UnconfirmedWithdrawArtifact a l ar)"
| "submitTxIntent gm env (UnconfirmedActivateArtifact a l ar w) =
     submit_directly gm env [] (UnconfirmedActivateArtifact a l ar w)"
| "submitTxIntent gm env (UnconfirmedDeactivateArtifact a l ar) =
     submit_directly gm env [] (UnconfirmedDeactivateArtifact a l ar)"
| "submitTxIntent gm env (UnconfirmedWithdrawSilver a l am) =
     submit_directly gm env [] (UnconfirmedWithdrawSilver a l am)"
| "submitTxIntent gm env (UnconfirmedUpgrade a l b) =
     submit_directly gm env
       (term_out gm [Terminal_println ''UPGRADE: sending upgrade to blockchain'',
                     Terminal_newline])
       (UnconfirmedUpgrade a l b)"
| "submitTxIntent gm env (UnconfirmedBuyHat a l) =
     submit_directly gm env
       (term_out gm [Terminal_println ''BUY HAT: sending request to blockchain'',
                     Terminal_newline])
       (UnconfirmedBuyHat a l)"
| "submitTxIntent gm env (UnconfirmedPlanetTransfer a p n) =
     submit_directly gm env [] (UnconfirmedPlanetTransfer a p n)"
| "submitTxIntent gm env (UnconfirmedInit a l) = []"
| "submitTxIntent gm env (UnconfirmedOther a) = []"

text \<open>The kinds that a method of GameManager.ts submits, and those that need a proof.\<close>

fun is_submitted_kind :: "TxIntent \<Rightarrow> bool" where
  "is_submitted_kind (UnconfirmedInit _ _) = False"
| "is_submitted_kind (UnconfirmedOther _) = False"
| "is_submitted_kind _ = True"

fun needs_snark :: "TxIntent \<Rightarrow> bool" where
  "needs_snark (UnconfirmedReveal _ _ _) = True"
| "needs_snark (UnconfirmedMove _ _ _ _ _ _) = True"
| "needs_snark (UnconfirmedFindArtifact _ _) = True"
| "needs_snark _ = False"

text \<open>
  The error with which the local submission fails, if it does: the proof generator is
  rejected (the ledger is never called), or the call of the ledger is.
\<close>

definition submission_failure :: "AsyncOutcomes \<Rightarrow> TxIntent \<Rightarrow> error option" where
  "submission_failure env txIntent =
     (if needs_snark txIntent
      then (case snark_result env of
              Inl err \<Rightarrow> Some err
            | Inr _ \<Rightarrow> (case submit_result env of Inl err \<Rightarrow> Some err | Inr _ \<Rightarrow> None))
      else (case submit_result env of Inl err \<Rightarrow> Some err | Inr _ \<Rightarrow> None))"

section \<open>The methods that validate before they submit\<close>

text \<open>\<^verbatim>\<open>Date.now()\<close> is the argument \<open>now\<close>, in milliseconds.\<close>

definition gameHasEnded :: "int \<Rightarrow> GameManager \<Rightarrow> bool" where
  "gameHasEnded now gm = (real_of_int now / 1000 > real_of_int (endTimeSeconds gm))"

definition checkGameHasEnded :: "int \<Rightarrow> GameManager \<Rightarrow> bool \<times> effect list" where
  "checkGameHasEnded now gm =
     (if gameHasEnded now gm
      then (True, term_out gm [Terminal_println ''[ERROR] Game has ended.''])
      else (False, []))"

definition lower_char :: "char \<Rightarrow> char" where
  "lower_char c =
     (if 65 \<le> (of_char c :: nat) \<and> (of_char c :: nat) \<le> 90
      then char_of ((of_char c :: nat) + 32) else c)"

definition toLowerCase :: "string \<Rightarrow> string" where
  "toLowerCase s = map lower_char s"

text \<open>The key \<^verbatim>\<open>`${this.getAccount()?.toLowerCase()}-suffix`\<close> of the browser's storage.\<close>

definition storageKey :: "GameManager \<Rightarrow> string \<Rightarrow> string" where
  "storageKey gm suffix =
     (case account gm of None \<Rightarrow> ''undefined'' | Some a \<Rightarrow> toLowerCase a) @ ''-'' @ suffix"

definition myLastRevealTimestamp :: "GameManager \<Rightarrow> int option" where
  "myLastRevealTimestamp gm =
     (case account gm of
        None \<Rightarrow> None
      | Some a \<Rightarrow> (case players gm a of None \<Rightarrow> None | Some pl \<Rightarrow> Some (lastRevealTimestamp pl)))"

definition getNextBroadcastAvailableTimestamp :: "int \<Rightarrow> GameManager \<Rightarrow> error + int" where
  "getNextBroadcastAvailableTimestamp now gm =
     (if \<not> truthy (account gm) then Inl (Error ''no account set'')
      else (case myLastRevealTimestamp gm of
              None \<Rightarrow> Inr now
            | Some t \<Rightarrow> if t = 0 then Inr now
                        else Inr ((t + LOCATION_REVEAL_COOLDOWN gm) * 1000)))"

text \<open>
  \<^verbatim>\<open>revealLocation(planetId)\<close>.  The result is the state after the call (the method
  assigns no field of the GameManager), the log of the call and of the promise chain it
  starts, and whether the call returned or threw.  \<open>actionId\<close> is the value of
  \<^verbatim>\<open>getRandomActionId()\<close>.
\<close>

definition revealLocation ::
  "int \<Rightarrow> AsyncOutcomes \<Rightarrow> string \<Rightarrow> GameManager \<Rightarrow> LocationId
    \<Rightarrow> GameManager \<times> effect list \<times> (error + unit)" where
  "revealLocation now env actionId gm planetId =
     (if fst (checkGameHasEnded now gm) then (gm, snd (checkGameHasEnded now gm), Inr ())
      else if \<not> truthy (account gm) then (gm, [], Inl (Error ''no account set''))
      else
        (case GameObjects_getPlanetWithId (entityStore gm) planetId of
           None \<Rightarrow>
             (gm, [], Inl (Error ''you can't reveal a planet you haven't discovered''))
         | Some planet \<Rightarrow>
             (case location planet of
                None \<Rightarrow>
                  (gm, [],
                   Inl (Error ''you can't reveal a planet whose coordinates you don't know''))
              | Some loc \<Rightarrow>
                  if coordsRevealed planet
                  then (gm, [], Inl (Error ''this planet's location is already revealed''))
                  else if unconfirmedReveal planet \<noteq> None
                  then (gm, [],
                        Inl (Error ''you're already revealing this planet's location''))
                  else if getUnconfirmedReveal (entityStore gm) \<noteq> None
                  then (gm, [], Inl (Error ''you're already broadcasting coordinates''))
                  else if (case myLastRevealTimestamp gm of
                             None \<Rightarrow> False
                           | Some t \<Rightarrow>
                               t \<noteq> 0 \<and>
                               (case getNextBroadcastAvailableTimestamp now gm of
                                  Inl _ \<Rightarrow> False
                                | Inr next \<Rightarrow> now < next))
                  then (gm, [], Inl (Error ''still on cooldown for broadcasting''))
                  else
                    (gm,
                     LocalStorage_setItem (storageKey gm ''revealLocationId'') planetId
                     # Store_onTxIntent (UnconfirmedReveal actionId planetId loc)
                     # submitTxIntent gm env (UnconfirmedReveal actionId planetId loc),
                     Inr ()))))"

text \<open>
  Arithmetic on JavaScript numbers that hold non-negative integers.  A double has 53
  significant bits: an integer below \<open>2\<^sup>5\<^sup>3 = 9007199254740992\<close> is held exactly, a
  larger one is rounded to the nearest multiple of the power of two that leaves 53 bits,
  a tie going to the even multiple, and what rounds to \<open>2\<^sup>1\<^sup>0\<^sup>2\<^sup>4\<close> or more is
  \<^verbatim>\<open>Infinity\<close>, for which \<open>2\<^sup>1\<^sup>0\<^sup>2\<^sup>4\<close> stands.  \<open>double_scale n\<close> is that power of
  two.  The square \<^verbatim>\<open>x ** 2\<close> is taken to be rounded like the product \<^verbatim>\<open>x * x\<close>.
\<close>

function double_scale :: "int \<Rightarrow> int" where
  "double_scale n = (if n < 9007199254740992 then 1 else 2 * double_scale (n div 2))"
  by pat_completeness auto
termination
  by (relation "measure nat") auto

declare double_scale.simps [simp del]

definition round_double :: "int \<Rightarrow> int" where
  "round_double n =
     (let s = double_scale n; q = n div s; r = n mod s
      in min ((if 2 * r > s \<or> (2 * r = s \<and> odd q) then q + 1 else q) * s) (2 ^ 1024))"

definition js_square :: "int \<Rightarrow> int" where
  "js_square a = round_double (a * a)"

definition js_plus :: "int \<Rightarrow> int \<Rightarrow> int" where
  "js_plus a b = round_double (a + b)"

text \<open>
  \<^verbatim>\<open>move(from, to, forces, silver, artifactMoved, bypassChecks)\<close>.  It reads the store
  without updating it, so the result is the log and whether the call returned or threw.
\<close>

definition move ::
  "int \<Rightarrow> AsyncOutcomes \<Rightarrow> string \<Rightarrow> GameManager \<Rightarrow> LocationId \<Rightarrow> LocationId \<Rightarrow> real \<Rightarrow> real
    \<Rightarrow> ArtifactId option \<Rightarrow> bool \<Rightarrow> effect list \<times> (error + unit)" where
  "move now env actionId gm fromId toId forces silver artifactMoved bypassChecks =
     (if fst (checkGameHasEnded now gm) then (snd (checkGameHasEnded now gm), Inr ())
      else
        (let stored = [LocalStorage_setItem (storageKey gm ''fromPlanet'') fromId,
                       LocalStorage_setItem (storageKey gm ''toPlanet'') toId]
         in if \<not> bypassChecks \<and> gameHasEnded now gm
            then (stored @ term_out gm [Terminal_println ''[ERROR] Game has ended.''], Inr ())
            else
              (case getLocationOfPlanet (entityStore gm) fromId of
                 None \<Rightarrow>
                   (stored @ [Console_error ''tried to move from planet that does not exist''],
                    Inr ())
               | Some oldLocation \<Rightarrow>
              (case getLocationOfPlanet (entityStore gm) toId of
                 None \<Rightarrow>
                   (stored @ [Console_error ''tried to move from planet that does not exist''],
                    Inr ())
               | Some newLocation \<Rightarrow>
                   if js_plus (js_square (coord_x (coords newLocation)))
                              (js_square (coord_y (coords newLocation)))
                        \<ge> js_square (worldRadius gm)
                   then (stored, Inl (Error ''attempted to move out of bounds''))
                   else
                     (case getPlanetWithLocation (entityStore gm) oldLocation of
                        None \<Rightarrow>
                          (stored,
                           Inl (Error ''attempted to move from a planet not owned by player''))
                      | Some oldPlanet \<Rightarrow>
                          if (\<not> bypassChecks \<and> \<not> truthy (account gm))
                             \<or> Some (owner oldPlanet) \<noteq> account gm
                          then (stored,
                                Inl (Error ''attempted to move from a planet not owned by player''))
                          else if \<not> truthy artifactMoved
                          then (stored
                                @ Store_onTxIntent
                                    (UnconfirmedMove actionId (hash oldLocation)
                                       (hash newLocation) forces silver None)
                                # submitTxIntent gm env
                                    (UnconfirmedMove actionId (hash oldLocation)
                                       (hash newLocation) forces silver None),
                                Inr ())
                          else if \<not> bypassChecks
                                  \<and> getArtifactById (entityStore gm) (the artifactMoved) = None
                          then (stored, Inl (Error ''couldn't find this artifact''))
                          else if \<not> bypassChecks
                                  \<and> activated (the (getArtifactById (entityStore gm)
                                                       (the artifactMoved)))
                          then (stored, Inl (Error ''can't move an activated artifact''))
                          else if \<not> bypassChecks
                                  \<and> the artifactMoved \<notin> set (heldArtifactIds oldPlanet)
                          then (stored, Inl (Error ''that artifact isn't on this planet!''))
                          else (stored
                                @ Store_onTxIntent
                                    (UnconfirmedMove actionId (hash oldLocation)
                                       (hash newLocation) forces silver artifactMoved)
                                # submitTxIntent gm env
                                    (UnconfirmedMove actionId (hash oldLocation)
                                       (hash newLocation) forces silver artifactMoved),
                                Inr ()))))))"

section \<open>Mining\<close>

text \<open>
  \<^verbatim>\<open>addNewChunk(chunk)\<close>.  Modelled from the spec: \<^verbatim>\<open>GameObjects.addPlanetLocation\<close> is not
  part of GameManager.ts; by the spec a mined location is recorded for rendering, and
  the touched ids grow only as on-ledger ids are learned, so the call is logged and the
  test \<^verbatim>\<open>isPlanetInContract\<close> that follows it reads the same touched ids.

  \<^verbatim>\<open>hardRefreshPlanet\<close> is started and not awaited: the first component of the result is
  the log of the call itself, the second the ids whose refresh it started, in order.
\<close>

fun addNewChunk_loop :: "GameObjects \<Rightarrow> WorldLocation list \<Rightarrow> effect list \<times> LocationId list" where
  "addNewChunk_loop es [] = ([], [])"
| "addNewChunk_loop es (planetLocation # rest) =
     (Store_addPlanetLocation planetLocation # fst (addNewChunk_loop es rest),
      (if isPlanetInContract es (hash planetLocation)
       then hash planetLocation # snd (addNewChunk_loop es rest)
       else snd (addNewChunk_loop es rest)))"

definition addNewChunk :: "GameManager \<Rightarrow> Chunk \<Rightarrow> effect list \<times> LocationId list" where
  "addNewChunk gm chunk =
     (ChunkStore_addChunk chunk True
      # fst (addNewChunk_loop (entityStore gm) (planetLocations chunk)),
      snd (addNewChunk_loop (entityStore gm) (planetLocations chunk)))"

text \<open>Everything \<^verbatim>\<open>addNewChunk\<close> causes: its own calls, then those of the refreshes it
  started, each run to its end.\<close>

definition addNewChunk_all_calls :: "GameManager \<Rightarrow> Chunk \<Rightarrow> effect list" where
  "addNewChunk_all_calls gm chunk =
     fst (addNewChunk gm chunk)
     @ concat (map (\<lambda>planetId. fst (hardRefreshPlanet (hashing gm) (contractsAPI gm) planetId))
                 (snd (addNewChunk gm chunk)))"

text \<open>
  Division of two finite JavaScript numbers.  Rounding to the nearest double is not
  modelled; a division by zero is: it gives an infinity, or NaN for \<^verbatim>\<open>0 / 0\<close>.
\<close>

definition js_divide :: "real \<Rightarrow> real \<Rightarrow> jsnumber" where
  "js_divide a b =
     (if b \<noteq> 0 then Num (a / b)
      else if a = 0 then NaN
      else if a > 0 then PosInfinity else NegInfinity)"

text \<open>The listener of \<^verbatim>\<open>MinerManagerEvent.DiscoveredNewChunk\<close> that \<^verbatim>\<open>initMiningManager\<close>
  installs.\<close>

definition onDiscoveredNewChunk ::
  "GameManager \<Rightarrow> Chunk \<Rightarrow> real \<Rightarrow> GameManager \<times> effect list" where
  "onDiscoveredNewChunk gm chunk miningTimeMillis =
     (gm\<lparr>hashRate :=
            js_divide ((real_of_int (sideLength (chunkFootprint chunk)))\<^sup>2)
                      (miningTimeMillis / 1000)\<rparr>,
      addNewChunk_all_calls gm chunk @ [Emit_DiscoveredNewChunk chunk])"

definition getHashesPerSec :: "GameManager \<Rightarrow> jsnumber" where
  "getHashesPerSec gm = hashRate gm"

definition startExplore :: "GameManager \<Rightarrow> GameManager \<times> effect list" where
  "startExplore gm =
     (case minerManager gm of
        None \<Rightarrow> (gm, [])
      | Some _ \<Rightarrow> (gm, [Miner_startExplore]))"

definition stopExplore :: "GameManager \<Rightarrow> GameManager \<times> effect list" where
  "stopExplore gm =
     (case minerManager gm of
        None \<Rightarrow> (gm, [])
      | Some _ \<Rightarrow> (gm\<lparr>hashRate := Num 0\<rparr>, [Miner_stopExplore]))"

section \<open>Kinds of calls, and the inputs of the examples\<close>

definition refresh_effect :: "effect \<Rightarrow> bool" where
  "refresh_effect e = (is_ledger_read e \<or> is_store_replace e)"

fun is_terminal_output :: "effect \<Rightarrow> bool" where
  "is_terminal_output (Terminal_print _) = True"
| "is_terminal_output (Terminal_printLink _) = True"
| "is_terminal_output (Terminal_println _) = True"
| "is_terminal_output Terminal_newline = True"
| "is_terminal_output _ = False"

definition rejecting_api :: ContractsAPI where
  "rejecting_api =
     \<lparr> api_getPlanetById = (\<lambda>_. Inl (Error ''network error'')),
       api_getArrivalsForPlanet = (\<lambda>_. Inl (Error ''network error'')),
       api_bulkGetArtifactsOnPlanets = (\<lambda>_. Inl (Error ''network error'')),
       api_getRevealedCoordsByIdIfExists = (\<lambda>_. Inl (Error ''network error'')),
       api_getAllArrivals = (\<lambda>_. Inl (Error ''network error'')),
       api_bulkGetPlanets = (\<lambda>_. Inl (Error ''network error'')),
       api_getArtifactById = (\<lambda>_. Inl (Error ''network error'')) \<rparr>"

definition empty_api :: ContractsAPI where
  "empty_api =
     \<lparr> api_getPlanetById = (\<lambda>_. Inr None),
       api_getArrivalsForPlanet = (\<lambda>_. Inr []),
       api_bulkGetArtifactsOnPlanets = (\<lambda>ids. Inr (map (\<lambda>_. []) ids)),
       api_getRevealedCoordsByIdIfExists = (\<lambda>_. Inr None),
       api_getAllArrivals = (\<lambda>_. Inr []),
       api_bulkGetPlanets = (\<lambda>_. Inr []),
       api_getArtifactById = (\<lambda>_. Inr None) \<rparr>"

definition test_hashing :: Hashing where
  "test_hashing =
     \<lparr> planetHashMimc = (\<lambda>x y. ''h''),
       spaceTypePerlin = (\<lambda>_ _. 0),
       biomebasePerlin = (\<lambda>_ _. 0) \<rparr>"

definition empty_store :: GameObjects where
  "empty_store =
     \<lparr> planets = Map.empty, artifacts = Map.empty, planetLocationMap = Map.empty,
       touchedPlanetIds = {}, store_unconfirmedReveal = None \<rparr>"

definition test_gm :: "ContractsAPI \<Rightarrow> GameManager" where
  "test_gm api =
     \<lparr> entityStore = empty_store, terminal_current = True, account = Some ''0xff'',
       players = Map.empty, contractsAPI = api, hashing = test_hashing,
       LOCATION_REVEAL_COOLDOWN = 0, endTimeSeconds = 1643587533,
       minerManager = Some MinerManager, hashRate = Num 7, worldRadius = 1000 \<rparr>"

text \<open>A store with two mined planets: the reveal of \<open>p1\<close> is in flight, \<open>p2\<close> lies
  outside the world radius of \<open>test_gm\<close>.\<close>

definition loc_p1 :: WorldLocation where
  "loc_p1 = \<lparr> coords = \<lparr> coord_x = 3, coord_y = 4 \<rparr>, hash = ''p1'', perlin = 0, biomebase = 0 \<rparr>"

definition loc_p2 :: WorldLocation where
  "loc_p2 = \<lparr> coords = \<lparr> coord_x = 600, coord_y = 800 \<rparr>, hash = ''p2'', perlin = 0,
             biomebase = 0 \<rparr>"

definition planet_p1 :: Planet where
  "planet_p1 =
     \<lparr> locationId = ''p1'', owner = ''0xff'', location = Some loc_p1, coordsRevealed = False,
       unconfirmedReveal = Some (UnconfirmedReveal ''a1'' ''p1'' loc_p1),
       heldArtifactIds = [] \<rparr>"

definition pending_store :: GameObjects where
  "pending_store =
     \<lparr> planets = [''p1'' \<mapsto> planet_p1], artifacts = Map.empty,
       planetLocationMap = [''p1'' \<mapsto> loc_p1, ''p2'' \<mapsto> loc_p2],
       touchedPlanetIds = {''p1''},
       store_unconfirmedReveal = Some (UnconfirmedReveal ''a1'' ''p1'' loc_p1) \<rparr>"

definition pending_gm :: GameManager where
  "pending_gm = (test_gm empty_api)\<lparr>entityStore := pending_store\<rparr>"

definition ok_env :: AsyncOutcomes where
  "ok_env = \<lparr> snark_result = Inr ''[]'', submit_result = Inr () \<rparr>"

definition snark_fails_env :: AsyncOutcomes where
  "snark_fails_env = \<lparr> snark_result = Inl (Error ''snark failed''), submit_result = Inr () \<rparr>"

definition submit_fails_env :: AsyncOutcomes where
  "submit_fails_env = \<lparr> snark_result = Inr ''[]'', submit_result = Inl (Error ''rejected'') \<rparr>"

definition test_chunk :: Chunk where
  "test_chunk =
     \<lparr> chunkFootprint = \<lparr> bottomLeft = \<lparr> coord_x = 0, coord_y = 0 \<rparr>, sideLength = 16 \<rparr>,
       planetLocations = [loc_p1, loc_p2] \<rparr>"





section \<open>Sequences of calls\<close>

text \<open>
  Calls on a GameManager with the state they leave behind, to say what holds between
  two of them.  The listeners of the ledger, \<^verbatim>\<open>move\<close> and \<^verbatim>\<open>addNewChunk\<close> are modelled
  by their logs alone, since they assign no field of the GameManager, and have no entry
  here.
\<close>

datatype call =
    StartExplore
  | StopExplore
  | RevealLocation int AsyncOutcomes string LocationId
  | DiscoveredNewChunk Chunk real

fun perform :: "GameManager \<Rightarrow> call \<Rightarrow> GameManager" where
  "perform gm StartExplore = fst (startExplore gm)"
| "perform gm StopExplore = fst (stopExplore gm)"
| "perform gm (RevealLocation now env actionId planetId) =
     fst (revealLocation now env actionId gm planetId)"
| "perform gm (DiscoveredNewChunk chunk miningTimeMillis) =
     fst (onDiscoveredNewChunk gm chunk miningTimeMillis)"

fun is_discovery :: "call \<Rightarrow> bool" where
  "is_discovery (DiscoveredNewChunk _ _) = True"
| "is_discovery _ = False"

fun is_local_storage :: "effect \<Rightarrow> bool" where
  "is_local_storage (LocalStorage_setItem _ _) = True"
| "is_local_storage _ = False"

section \<open>What it is to have refetched an entity\<close>





section \<open>Asynchronous functions: the log and the result of a sequence\<close>

lemma fst_bindT: "fst (bindT m k) = (case snd m of Inl e \<Rightarrow> fst m | Inr a \<Rightarrow> fst m @ fst (k a))"
  by (simp add: bindT_def split: sum.splits)

lemma snd_bindT: "snd (bindT m k) = (case snd m of Inl e \<Rightarrow> Inl e | Inr a \<Rightarrow> snd (k a))"
  by (simp add: bindT_def split: sum.splits)

lemma list_all_bindT:
  assumes "list_all P (fst m)" and "\<And>a. list_all P (fst (k a))"
  shows "list_all P (fst (bindT m k))"
  using assms by (simp add: fst_bindT split: sum.splits)

lemma list_all_allT:
  assumes "list_all P (fst p)" and "list_all P (fst q)"
  shows "list_all P (fst (allT p q))"
  using assms by (simp add: allT_def)

section \<open>A refresh only reads the ledger and overwrites entities\<close>

lemma softRefreshPlanet_effects: "list_all refresh_effect (fst (softRefreshPlanet api p))"
  by (simp add: softRefreshPlanet_def fst_bindT await_call_def returnT_def doT_def refresh_effect_def
      split: sum.splits option.splits)

lemma hardRefreshArtifact_effects: "list_all refresh_effect (fst (hardRefreshArtifact api a))"
  by (simp add: hardRefreshArtifact_def fst_bindT await_call_def returnT_def doT_def refresh_effect_def
      split: sum.splits option.splits)

lemma hardRefreshPlanet_effects: "list_all refresh_effect (fst (hardRefreshPlanet h api p))"
  by (simp add: hardRefreshPlanet_def fst_bindT snd_bindT await_call_def returnT_def throwT_def doT_def refresh_effect_def
      list_all_iff Let_def
      split: sum.splits option.splits list.splits)

lemma bulk_replace_loop_effects:
  "list_all refresh_effect (fst (bulk_replace_loop pm pvm arts ids i))"
  by (induction pm pvm arts ids i rule: bulk_replace_loop.induct)
     (simp_all add: fst_bindT returnT_def throwT_def doT_def refresh_effect_def split: option.splits)

lemma bulkHardRefreshPlanets_effects:
  "list_all refresh_effect (fst (bulkHardRefreshPlanets api ids))"
  unfolding bulkHardRefreshPlanets_def
  by (intro list_all_bindT bulk_replace_loop_effects)
     (simp_all add: await_call_def doT_def refresh_effect_def list_all_iff)

lemma confirmedRefetch_effects: "list_all refresh_effect (fst (confirmedRefetch gm tx))"
  by (cases tx)
     (simp_all add: hardRefreshPlanet_effects hardRefreshArtifact_effects softRefreshPlanet_effects
        bulkHardRefreshPlanets_effects list_all_allT list_all_bindT returnT_def split: option.splits)

lemma refresh_effect_filter:
  assumes "list_all refresh_effect l" and "\<And>e. refresh_effect e \<Longrightarrow> \<not> P e"
  shows "filter P l = []"
  using assms by (induction l) auto

lemma refresh_effect_notin:
  assumes "list_all refresh_effect l" and "\<not> refresh_effect e"
  shows "e \<notin> set l"
  using assms by (auto simp: list_all_iff)

lemma onTxConfirmed_no_clear: "Store_clearUnconfirmedTxIntent t \<notin> set (onTxConfirmed gm stx)"
  by (simp add: onTxConfirmed_def term_out_def)

lemma fst_txConfirmed:
  "fst (txConfirmed gm stx) =
     ChunkStore_onEthTxComplete (txHash stx) # fst (confirmedRefetch gm (intent stx))
     @ (case snd (confirmedRefetch gm (intent stx)) of
          Inl e \<Rightarrow> []
        | Inr _ \<Rightarrow> Store_clearUnconfirmedTxIntent (intent stx) # onTxConfirmed gm stx)"
  by (simp add: txConfirmed_def fst_bindT snd_bindT doT_def split: sum.splits)


section \<open>Reverted transactions\<close>

text \<open>
  C4.  When a submitted transaction is reverted, the handler clears the unconfirmed
  intent and notifies: apart from what it prints on the terminal, its calls are the
  clearing of the intent, the removal of the transaction from the chunk store's list of
  pending transactions, and the notification.  The clearing is its only call that changes
  the entity store (no value is rolled back), and it reads nothing from the ledger and
  writes nothing to it.
\<close>

theorem txReverted_clears_and_notifies:
  "filter (\<lambda>e. \<not> is_terminal_output e) (txReverted gm stx) =
     [Store_clearUnconfirmedTxIntent (intent stx), ChunkStore_onEthTxComplete (txHash stx),
      Notif_txRevert stx]
   \<and> filter is_store_write (txReverted gm stx) = [Store_clearUnconfirmedTxIntent (intent stx)]
   \<and> filter is_ledger_read (txReverted gm stx) = []
   \<and> filter is_ledger_write (txReverted gm stx) = []"
  by (simp add: txReverted_def onTxReverted_def term_out_def)

section \<open>Clearing the intent when the outcome arrives\<close>

text \<open>
  The clearing on the confirm path comes after the awaited refetch.  When the ledger
  rejects a read of that refetch, the listener is rejected at the \<^verbatim>\<open>await\<close> and never
  reaches the clearing: here for a confirmed upgrade.
\<close>

theorem confirm_skips_clear_counterexample:
  "Store_clearUnconfirmedTxIntent (UnconfirmedUpgrade ''a1'' ''p1'' 0)
     \<notin> set (fst (txConfirmed (test_gm rejecting_api)
                   \<lparr> intent = UnconfirmedUpgrade ''a1'' ''p1'' 0, txHash = ''0xabc'' \<rparr>))"
  by (simp add: fst_txConfirmed hardRefreshPlanet_def fst_bindT snd_bindT await_call_def
        test_gm_def rejecting_api_def)

text \<open>
  C6, amended.  On a revert the intent is always cleared.  On a confirm it is cleared, for
  a transaction of any kind, exactly when the refetch awaited before the clearing is not
  rejected.
\<close>

theorem clear_on_outcome:
  "Store_clearUnconfirmedTxIntent (intent stx) \<in> set (txReverted gm stx)
   \<and> (Store_clearUnconfirmedTxIntent (intent stx) \<in> set (fst (txConfirmed gm stx)))
       = (snd (confirmedRefetch gm (intent stx)) = Inr ())"
proof -
  have "Store_clearUnconfirmedTxIntent (intent stx) \<notin> set (fst (confirmedRefetch gm (intent stx)))"
    by (rule refresh_effect_notin [OF confirmedRefetch_effects]) (simp add: refresh_effect_def)
  then show ?thesis
    by (auto simp: txReverted_def fst_txConfirmed onTxConfirmed_no_clear split: sum.splits)
qed

section \<open>Local failure of a submission\<close>

lemma onTxIntentFail_calls:
  "Store_clearUnconfirmedTxIntent tx \<in> set (onTxIntentFail gm tx e)"
  "Notif_unsubmittedTxFail tx e \<in> set (onTxIntentFail gm tx e)"
  "filter is_ledger_read (onTxIntentFail gm tx e) = []"
  "filter is_ledger_write (onTxIntentFail gm tx e) = []"
  "filter is_snark_call (onTxIntentFail gm tx e) = []"
  "filter is_store_write (onTxIntentFail gm tx e) = [Store_clearUnconfirmedTxIntent tx]"
  by (simp_all add: onTxIntentFail_def term_out_def)

lemma submit_directly_failure:
  assumes "submit_result env = Inl e"
    and "filter is_ledger_read printed = []" and "filter is_ledger_write printed = []"
    and "filter is_snark_call printed = []" and "filter is_store_write printed = []"
  shows "Store_clearUnconfirmedTxIntent tx \<in> set (submit_directly gm env printed tx)
       \<and> Notif_unsubmittedTxFail tx e \<in> set (submit_directly gm env printed tx)
       \<and> filter is_ledger_read (submit_directly gm env printed tx) = []
       \<and> filter is_store_write (submit_directly gm env printed tx)
           = [Store_clearUnconfirmedTxIntent tx]
       \<and> filter is_ledger_write (submit_directly gm env printed tx) = [Api_submit tx]
       \<and> filter is_snark_call (submit_directly gm env printed tx) = []"
  using assms by (simp add: submit_directly_def onTxIntentFail_calls)

lemma filter_term_out:
  "filter is_ledger_read (term_out gm [Terminal_println a, Terminal_newline]) = []"
  "filter is_ledger_write (term_out gm [Terminal_println a, Terminal_newline]) = []"
  "filter is_snark_call (term_out gm [Terminal_println a, Terminal_newline]) = []"
  "filter is_store_write (term_out gm [Terminal_println a, Terminal_newline]) = []"
  by (simp_all add: term_out_def)

lemma submit_after_snark_failure:
  assumes "(case snark_result env of
              Inl err \<Rightarrow> Some err
            | Inr _ \<Rightarrow> (case submit_result env of Inl err \<Rightarrow> Some err | Inr _ \<Rightarrow> None)) = Some e"
    and "is_snark_call c" and "\<not> is_ledger_read c" and "\<not> is_ledger_write c"
    and "\<not> is_store_write c"
  shows "Store_clearUnconfirmedTxIntent tx \<in> set (submit_after_snark gm env c lbl tx)
       \<and> Notif_unsubmittedTxFail tx e \<in> set (submit_after_snark gm env c lbl tx)
       \<and> filter is_ledger_read (submit_after_snark gm env c lbl tx) = []
       \<and> filter is_store_write (submit_after_snark gm env c lbl tx)
           = [Store_clearUnconfirmedTxIntent tx]
       \<and> filter is_ledger_write (submit_after_snark gm env c lbl tx)
           = (if isl (snark_result env) then [] else [Api_submit tx])
       \<and> filter is_snark_call (submit_after_snark gm env c lbl tx) = [c]"
  using assms
  by (auto simp: submit_after_snark_def onTxIntentFail_calls term_out_def split: sum.splits)

text \<open>
  C5.  When the local submission of an intent fails before the ledger has confirmed or
  reverted anything (the proof generator is rejected, or the call of the ledger is), the
  intent is cleared and the failure is notified; nothing is read from the ledger, the
  clearing is the only call that changes the entity store, and nothing is tried again:
  the ledger is called once, or not at all when the proof generator failed, and the proof
  generator at most once.  This holds for each kind of intent that a method submits.
\<close>

theorem local_failure_clears_and_notifies:
  assumes "is_submitted_kind tx" and "submission_failure env tx = Some e"
  shows "Store_clearUnconfirmedTxIntent tx \<in> set (submitTxIntent gm env tx)
       \<and> Notif_unsubmittedTxFail tx e \<in> set (submitTxIntent gm env tx)
       \<and> filter is_ledger_read (submitTxIntent gm env tx) = []
       \<and> filter is_store_write (submitTxIntent gm env tx) = [Store_clearUnconfirmedTxIntent tx]
       \<and> filter is_ledger_write (submitTxIntent gm env tx)
           = (if needs_snark tx \<and> isl (snark_result env) then [] else [Api_submit tx])
       \<and> length (filter is_snark_call (submitTxIntent gm env tx)) \<le> 1"
proof (cases "needs_snark tx")
  case True
  with assms(2) have f: "(case snark_result env of
              Inl err \<Rightarrow> Some err
            | Inr _ \<Rightarrow> (case submit_result env of Inl err \<Rightarrow> Some err | Inr _ \<Rightarrow> None)) = Some e"
    by (simp add: submission_failure_def)
  from True show ?thesis
    by (cases tx) (simp_all add: submit_after_snark_failure [OF f])
next
  case False
  with assms(2) have f: "submit_result env = Inl e"
    by (simp add: submission_failure_def split: sum.splits)
  from False assms(1) show ?thesis
    by (cases tx) (simp_all add: submit_directly_failure [OF f] filter_term_out)
qed

theorem local_failure_clears_and_notifies_witness:
  "Store_clearUnconfirmedTxIntent (UnconfirmedReveal ''a1'' ''p1'' loc_p1)
     \<in> set (submitTxIntent pending_gm snark_fails_env (UnconfirmedReveal ''a1'' ''p1'' loc_p1))
   \<and> filter is_ledger_write
        (submitTxIntent pending_gm snark_fails_env (UnconfirmedReveal ''a1'' ''p1'' loc_p1)) = []
   \<and> Notif_unsubmittedTxFail (UnconfirmedUpgrade ''a3'' ''p1'' 1) (Error ''rejected'')
     \<in> set (submitTxIntent pending_gm submit_fails_env (UnconfirmedUpgrade ''a3'' ''p1'' 1))
   \<and> filter is_ledger_write
        (submitTxIntent pending_gm submit_fails_env (UnconfirmedUpgrade ''a3'' ''p1'' 1))
       = [Api_submit (UnconfirmedUpgrade ''a3'' ''p1'' 1)]"
proof -
  have k: "is_submitted_kind (UnconfirmedReveal ''a1'' ''p1'' loc_p1)" by simp
  have f: "submission_failure snark_fails_env (UnconfirmedReveal ''a1'' ''p1'' loc_p1)
             = Some (Error ''snark failed'')"
    by (simp add: submission_failure_def snark_fails_env_def)
  have k': "is_submitted_kind (UnconfirmedUpgrade ''a3'' ''p1'' 1)" by simp
  have f': "submission_failure submit_fails_env (UnconfirmedUpgrade ''a3'' ''p1'' 1)
              = Some (Error ''rejected'')"
    by (simp add: submission_failure_def submit_fails_env_def)
  show ?thesis
    using local_failure_clears_and_notifies [OF k f, of pending_gm]
      local_failure_clears_and_notifies [OF k' f', of pending_gm]
    by (simp add: snark_fails_env_def)
qed

section \<open>Reveal\<close>

text \<open>
  C2, amended.  While the reveal of the planet is unconfirmed, or any reveal is, a call
  of \<^verbatim>\<open>revealLocation\<close> sets no optimistic flag and calls neither the proof generator
  nor the ledger: it changes nothing in the entity store and makes no call to the
  network.  As long as the game has not ended it throws, and logs nothing at all; once
  the game has ended it prints that on the terminal and returns without throwing.
\<close>

theorem revealLocation_rejects_duplicate:
  assumes "(\<exists>p. planets (entityStore gm) planetId = Some p \<and> unconfirmedReveal p \<noteq> None)
           \<or> getUnconfirmedReveal (entityStore gm) \<noteq> None"
  shows "fst (snd (revealLocation now env actionId gm planetId))
           = (if gameHasEnded now gm
              then term_out gm [Terminal_println ''[ERROR] Game has ended.''] else [])
       \<and> isl (snd (snd (revealLocation now env actionId gm planetId)))
           = (\<not> gameHasEnded now gm)
       \<and> filter is_store_write (fst (snd (revealLocation now env actionId gm planetId))) = []
       \<and> filter is_network_call (fst (snd (revealLocation now env actionId gm planetId))) = []"
proof (cases "gameHasEnded now gm")
  case True
  then show ?thesis
    by (simp add: revealLocation_def checkGameHasEnded_def term_out_def is_network_call_def)
next
  case False
  from assms have
    "fst (snd (revealLocation now env actionId gm planetId)) = []
     \<and> isl (snd (snd (revealLocation now env actionId gm planetId)))"
    using False
    by (auto simp: revealLocation_def checkGameHasEnded_def GameObjects_getPlanetWithId_def
        split: option.splits)
  with False show ?thesis by simp
qed

theorem revealLocation_rejects_duplicate_witness:
  "isl (snd (snd (revealLocation 1600000000000 ok_env ''a2'' pending_gm ''p1'')))
   \<and> fst (snd (revealLocation 1600000000000 ok_env ''a2'' pending_gm ''p1'')) = []"
proof -
  have h: "(\<exists>p. planets (entityStore pending_gm) ''p1'' = Some p \<and> unconfirmedReveal p \<noteq> None)
           \<or> getUnconfirmedReveal (entityStore pending_gm) \<noteq> None"
    by (simp add: pending_gm_def pending_store_def planet_p1_def)
  have g: "\<not> gameHasEnded 1600000000000 pending_gm"
    by (simp add: gameHasEnded_def pending_gm_def test_gm_def)
  show ?thesis
    using revealLocation_rejects_duplicate [OF h, of 1600000000000 ok_env "''a2''"] g by simp
qed

text \<open>
  The claim as stated fails once the game has ended (\<^verbatim>\<open>endTimeSeconds\<close> is a day of
  January 2022): the second reveal of a planet whose reveal is unconfirmed returns
  without throwing.
\<close>

theorem revealLocation_game_over_counterexample:
  "planets (entityStore pending_gm) ''p1'' = Some planet_p1
   \<and> unconfirmedReveal planet_p1 \<noteq> None
   \<and> snd (snd (revealLocation 1700000000000 ok_env ''a2'' pending_gm ''p1'')) = Inr ()"
  by (simp add: revealLocation_def checkGameHasEnded_def gameHasEnded_def pending_gm_def
        test_gm_def pending_store_def planet_p1_def)

section \<open>Move\<close>

text \<open>Rounding to a double: exact below \<open>2\<^sup>5\<^sup>3\<close>, and never below \<open>2\<^sup>5\<^sup>3\<close> from there on.\<close>

lemma double_scale_pos: "double_scale n \<ge> 1"
  by (induction n rule: double_scale.induct) (subst double_scale.simps, auto)

lemma round_double_exact:
  assumes "0 \<le> n" and "n < 9007199254740992"
  shows "round_double n = n"
proof -
  have s: "double_scale n = 1" using assms by (subst double_scale.simps) simp
  have "n \<le> 2 ^ 1024"
  proof -
    have "(9007199254740992::int) = 2 ^ 53" by simp
    also have "\<dots> \<le> 2 ^ 1024" by (rule power_increasing) simp_all
    finally show ?thesis using assms by linarith
  qed
  then show ?thesis by (simp add: round_double_def s Let_def)
qed

lemma double_scale_le:
  "9007199254740992 \<le> n \<Longrightarrow> 4503599627370496 * double_scale n \<le> n \<and> 2 \<le> double_scale n"
proof (induction n rule: double_scale.induct)
  case (1 n)
  from 1(2) have ds: "double_scale n = 2 * double_scale (n div 2)"
    by (subst double_scale.simps) simp
  have half: "2 * (n div 2) \<le> n" by simp
  show ?case
  proof (cases "n div 2 < 9007199254740992")
    case True
    then have "double_scale (n div 2) = 1" by (subst double_scale.simps) simp
    with 1(2) show ?thesis by (simp add: ds)
  next
    case False
    with 1 have ih: "4503599627370496 * double_scale (n div 2) \<le> n div 2"
      and "2 \<le> double_scale (n div 2)" by simp_all
    with half show ?thesis unfolding ds by linarith
  qed
qed

lemma round_double_nonneg: "0 \<le> n \<Longrightarrow> 0 \<le> round_double n"
  using double_scale_pos [of n]
  by (auto simp: round_double_def Let_def pos_imp_zdiv_nonneg_iff intro!: mult_nonneg_nonneg)

lemma round_double_large:
  assumes "9007199254740992 \<le> n"
  shows "9007199254740992 \<le> round_double n"
proof -
  let ?s = "double_scale n"
  from double_scale_le [OF assms] have a: "4503599627370496 * ?s \<le> n" and b: "2 \<le> ?s"
    by simp_all
  have q: "4503599627370496 \<le> n div ?s"
  proof -
    have "4503599627370496 * ?s div ?s \<le> n div ?s" using a b by (intro zdiv_mono1) simp_all
    then show ?thesis using b by simp
  qed
  have "9007199254740992 \<le> 4503599627370496 * ?s" using b by simp
  also have "\<dots> \<le> (n div ?s) * ?s" using q b by (intro mult_right_mono) simp_all
  finally have c: "9007199254740992 \<le> (n div ?s) * ?s" .
  have d: "(n div ?s) * ?s \<le> (n div ?s + 1) * ?s" using b by (simp add: algebra_simps)
  have e: "(9007199254740992::int) \<le> 2 ^ 1024"
  proof -
    have "(9007199254740992::int) = 2 ^ 53" by simp
    also have "\<dots> \<le> 2 ^ 1024" by (rule power_increasing) simp_all
    finally show ?thesis .
  qed
  show ?thesis using c d e by (auto simp: round_double_def Let_def)
qed

lemma js_out_of_bounds:
  assumes r: "R * R < 9007199254740992" and o: "R * R \<le> a * a + b * b"
  shows "js_square R \<le> js_plus (js_square a) (js_square b)"
proof -
  have R: "js_square R = R * R" using r by (simp add: js_square_def round_double_exact)
  have na: "0 \<le> js_square a" and nb: "0 \<le> js_square b"
    by (simp_all add: js_square_def round_double_nonneg)
  show ?thesis
  proof (cases "a * a < 9007199254740992 \<and> b * b < 9007199254740992")
    case True
    then have ab: "js_square a = a * a" "js_square b = b * b"
      by (simp_all add: js_square_def round_double_exact)
    show ?thesis
    proof (cases "a * a + b * b < 9007199254740992")
      case True
      then have "js_plus (a * a) (b * b) = a * a + b * b"
        by (simp add: js_plus_def round_double_exact)
      with o show ?thesis by (simp add: R ab)
    next
      case False
      then have "9007199254740992 \<le> js_plus (a * a) (b * b)"
        by (simp add: js_plus_def round_double_large)
      with r show ?thesis by (simp add: R ab)
    qed
  next
    case False
    then have "9007199254740992 \<le> js_square a \<or> 9007199254740992 \<le> js_square b"
      by (auto simp: js_square_def intro: round_double_large)
    with na nb have "9007199254740992 \<le> js_square a + js_square b" by linarith
    then have "9007199254740992 \<le> js_plus (js_square a) (js_square b)"
      by (simp add: js_plus_def round_double_large)
    with r show ?thesis by (simp add: R)
  qed
qed

text \<open>
  The model reproduces what rounding does to the test beyond the exact range: with the
  radius 396471605 the point (396469588, 1264659) lies exactly on the boundary, yet the
  rounded sum of the squares is below the rounded square of the radius.
\<close>

lemma rounded_bounds_test_beyond_exact_range:
  "(396469588::int)\<^sup>2 + 1264659\<^sup>2 \<ge> 396471605\<^sup>2
   \<and> \<not> js_plus (js_square 396469588) (js_square 1264659) \<ge> js_square 396471605"
  by (simp add: js_plus_def js_square_def round_double_def double_scale.simps Let_def)

text \<open>
  C3, amended.  Let the square of the world radius be below \<open>2\<^sup>5\<^sup>3\<close> (a radius of at
  most 94906265), so that it is held exactly and rounding cannot take the sum of the
  squares of the destination below it.  A move to a destination whose known coordinates satisfy \<open>x\<^sup>2 + y\<^sup>2 \<ge> worldRadius\<^sup>2\<close>
  changes nothing in the entity store and makes no call to the network.  It throws the
  out-of-bounds error when the game has not ended and the location of the source planet
  is known, and returns without throwing otherwise.  When the game has not ended, the two
  entries \<^verbatim>\<open>fromPlanet\<close> and \<^verbatim>\<open>toPlanet\<close> of the browser's local storage are written
  before that.
\<close>

theorem move_out_of_bounds:
  assumes "getLocationOfPlanet (entityStore gm) toId = Some newLocation"
    and "(coord_x (coords newLocation))\<^sup>2 + (coord_y (coords newLocation))\<^sup>2 \<ge> (worldRadius gm)\<^sup>2"
    and "(worldRadius gm)\<^sup>2 < 2 ^ 53"
  shows "snd (move now env actionId gm fromId toId forces silver artifactMoved bypassChecks)
           = (if gameHasEnded now gm \<or> getLocationOfPlanet (entityStore gm) fromId = None
              then Inr () else Inl (Error ''attempted to move out of bounds''))
       \<and> filter is_store_write
           (fst (move now env actionId gm fromId toId forces silver artifactMoved bypassChecks)) = []
       \<and> filter is_network_call
           (fst (move now env actionId gm fromId toId forces silver artifactMoved bypassChecks)) = []
       \<and> filter is_local_storage
           (fst (move now env actionId gm fromId toId forces silver artifactMoved bypassChecks))
           = (if gameHasEnded now gm then []
              else [LocalStorage_setItem (storageKey gm ''fromPlanet'') fromId,
                    LocalStorage_setItem (storageKey gm ''toPlanet'') toId])"
proof -
  have "js_square (worldRadius gm)
          \<le> js_plus (js_square (coord_x (coords newLocation)))
               (js_square (coord_y (coords newLocation)))"
    using assms(2,3) by (intro js_out_of_bounds) (simp_all add: power2_eq_square)
  with assms(1) show ?thesis
    by (simp add: move_def checkGameHasEnded_def term_out_def is_network_call_def Let_def
        split: option.splits)
qed

theorem move_out_of_bounds_witness:
  "snd (move 1600000000000 ok_env ''a2'' pending_gm ''p1'' ''p2'' 50 0 None False)
     = Inl (Error ''attempted to move out of bounds'')
   \<and> filter is_store_write
       (fst (move 1600000000000 ok_env ''a2'' pending_gm ''p1'' ''p2'' 50 0 None False)) = []"
proof -
  have l: "getLocationOfPlanet (entityStore pending_gm) ''p2'' = Some loc_p2"
    by (simp add: getLocationOfPlanet_def pending_gm_def pending_store_def)
  have b: "(coord_x (coords loc_p2))\<^sup>2 + (coord_y (coords loc_p2))\<^sup>2 \<ge> (worldRadius pending_gm)\<^sup>2"
    by (simp add: loc_p2_def pending_gm_def test_gm_def)
  have r: "(worldRadius pending_gm)\<^sup>2 < 2 ^ 53"
    by (simp add: pending_gm_def test_gm_def)
  have g: "\<not> gameHasEnded 1600000000000 pending_gm"
    by (simp add: gameHasEnded_def pending_gm_def test_gm_def)
  have f: "getLocationOfPlanet (entityStore pending_gm) ''p1'' \<noteq> None"
    by (simp add: getLocationOfPlanet_def pending_gm_def pending_store_def)
  show ?thesis
    using move_out_of_bounds [OF l b r, of 1600000000000 ok_env "''a2''" "''p1''" 50 0 None False]
      g f by simp
qed

text \<open>
  The claim as stated fails twice: once the game has ended the move returns without
  throwing, and before the out-of-bounds error is thrown the local storage has been
  written.
\<close>

theorem move_out_of_bounds_counterexample:
  "getLocationOfPlanet (entityStore pending_gm) ''p2'' = Some loc_p2
   \<and> (coord_x (coords loc_p2))\<^sup>2 + (coord_y (coords loc_p2))\<^sup>2 \<ge> (worldRadius pending_gm)\<^sup>2
   \<and> snd (move 1700000000000 ok_env ''a2'' pending_gm ''p1'' ''p2'' 50 0 None False) = Inr ()
   \<and> filter is_local_storage
       (fst (move 1600000000000 ok_env ''a2'' pending_gm ''p1'' ''p2'' 50 0 None False))
       = [LocalStorage_setItem ''0xff-fromPlanet'' ''p1'',
          LocalStorage_setItem ''0xff-toPlanet'' ''p2'']"
  by (simp add: move_def checkGameHasEnded_def gameHasEnded_def getLocationOfPlanet_def
        pending_gm_def test_gm_def pending_store_def loc_p2_def loc_p1_def storageKey_def
        toLowerCase_def lower_char_def Let_def js_plus_def js_square_def round_double_def
        double_scale.simps)

section \<open>A discovered chunk\<close>

lemma addNewChunk_loop_started:
  "snd (addNewChunk_loop es locs)
     = map hash (filter (\<lambda>l. isPlanetInContract es (hash l)) locs)"
  by (induction locs) simp_all

lemma addNewChunk_loop_calls:
  "fst (addNewChunk_loop es locs) = map Store_addPlanetLocation locs"
  by (induction locs) simp_all

lemma filter_concat_map:
  "filter P (concat (map f xs)) = concat (map (\<lambda>x. filter P (f x)) xs)"
  by (induction xs) simp_all

lemma filter_map_addPlanetLocation:
  "filter is_ledger_read (map Store_addPlanetLocation locs) = []"
  "filter is_ledger_write (map Store_addPlanetLocation locs) = []"
  by (induction locs) simp_all

lemma hardRefreshPlanet_no_write:
  "filter is_ledger_write (fst (hardRefreshPlanet h api p)) = []"
  by (rule refresh_effect_filter [OF hardRefreshPlanet_effects])
     (auto simp: refresh_effect_def elim: is_ledger_read.elims is_store_replace.elims)

text \<open>
  C7.  \<^verbatim>\<open>addNewChunk\<close> records every location of the chunk in the entity store, and starts
  a refresh from the ledger for exactly those locations, in their order, whose id is known
  to exist on the ledger (\<^verbatim>\<open>isPlanetInContract\<close>).  The call itself reads nothing from the
  ledger: every ledger read it causes is one of the refreshes of those ids, and nothing is
  written to the ledger.
\<close>

theorem addNewChunk_refreshes_touched:
  "snd (addNewChunk gm chunk)
     = map hash (filter (\<lambda>l. isPlanetInContract (entityStore gm) (hash l))
                   (planetLocations chunk))
   \<and> fst (addNewChunk gm chunk)
     = ChunkStore_addChunk chunk True # map Store_addPlanetLocation (planetLocations chunk)
   \<and> filter is_ledger_read (addNewChunk_all_calls gm chunk)
     = concat (map (\<lambda>planetId. filter is_ledger_read
                                  (fst (hardRefreshPlanet (hashing gm) (contractsAPI gm) planetId)))
                 (map hash (filter (\<lambda>l. isPlanetInContract (entityStore gm) (hash l))
                              (planetLocations chunk))))
   \<and> filter is_ledger_write (addNewChunk_all_calls gm chunk) = []"
  by (simp add: addNewChunk_def addNewChunk_all_calls_def addNewChunk_loop_started
      addNewChunk_loop_calls filter_concat_map filter_map_addPlanetLocation
      hardRefreshPlanet_no_write comp_def)

section \<open>The reported hash rate\<close>

text \<open>
  C8.  After a chunk-discovery event with a chunk and its mining time in milliseconds,
  \<^verbatim>\<open>getHashesPerSec\<close> returns the square of the side length of the chunk's footprint
  divided by the time in seconds.  For a time of zero JavaScript's division gives
  \<^verbatim>\<open>Infinity\<close> (\<^verbatim>\<open>NaN\<close> for a side length of zero).
\<close>

theorem hashRate_after_discovery:
  "getHashesPerSec (fst (onDiscoveredNewChunk gm chunk miningTimeMillis))
     = js_divide ((real_of_int (sideLength (chunkFootprint chunk)))\<^sup>2) (miningTimeMillis / 1000)
   \<and> getHashesPerSec (fst (onDiscoveredNewChunk gm chunk miningTimeMillis))
     = (if miningTimeMillis = 0
        then (if sideLength (chunkFootprint chunk) = 0 then NaN else PosInfinity)
        else Num ((real_of_int (sideLength (chunkFootprint chunk)))\<^sup>2
                  / (miningTimeMillis / 1000)))"
  by (simp add: getHashesPerSec_def onDiscoveredNewChunk_def js_divide_def)

lemma hashRate_revealLocation:
  "hashRate (fst (revealLocation now env actionId gm pid)) = hashRate gm"
  by (simp add: revealLocation_def Let_def split: option.splits)

lemma hashRate_startExplore: "hashRate (fst (startExplore gm)) = hashRate gm"
  by (simp add: startExplore_def split: option.splits)

lemma hashRate_perform:
  assumes "\<not> is_discovery c" and "hashRate gm = Num 0"
  shows "hashRate (perform gm c) = Num 0"
  using assms
  by (cases c)
     (simp_all add: hashRate_revealLocation hashRate_startExplore stopExplore_def
        split: option.splits)

lemma hashRate_foldl_perform:
  assumes "list_all (\<lambda>c. \<not> is_discovery c) cs" and "hashRate gm = Num 0"
  shows "hashRate (foldl perform gm cs) = Num 0"
  using assms by (induction cs arbitrary: gm) (simp_all add: hashRate_perform)

text \<open>
  C10.  When a miner manager exists, \<^verbatim>\<open>stopExplore\<close> sets the reported hash rate to 0;
  the rate is still 0 after any sequence of calls without a chunk-discovery event, and the
  next such event recomputes it.  \<^verbatim>\<open>startExplore\<close> does not change the reported rate.
\<close>

theorem stopExplore_zeroes_rate:
  assumes "minerManager gm \<noteq> None"
    and "list_all (\<lambda>c. \<not> is_discovery c) cs"
  shows "getHashesPerSec (fst (stopExplore gm)) = Num 0
       \<and> getHashesPerSec (foldl perform (fst (stopExplore gm)) cs) = Num 0
       \<and> getHashesPerSec (fst (startExplore gm)) = getHashesPerSec gm
       \<and> getHashesPerSec
           (perform (foldl perform (fst (stopExplore gm)) cs)
              (DiscoveredNewChunk chunk miningTimeMillis))
         = js_divide ((real_of_int (sideLength (chunkFootprint chunk)))\<^sup>2)
             (miningTimeMillis / 1000)"
proof -
  from assms(1) have z: "hashRate (fst (stopExplore gm)) = Num 0"
    by (auto simp: stopExplore_def)
  show ?thesis
    using z hashRate_foldl_perform [OF assms(2) z]
    by (simp add: getHashesPerSec_def hashRate_startExplore onDiscoveredNewChunk_def)
qed

theorem stopExplore_zeroes_rate_witness:
  "getHashesPerSec pending_gm = Num 7
   \<and> getHashesPerSec
       (foldl perform (fst (stopExplore pending_gm))
          [StartExplore, RevealLocation 1600000000000 ok_env ''a2'' ''p1'', StopExplore]) = Num 0"
proof -
  have m: "minerManager pending_gm \<noteq> None"
    by (simp add: pending_gm_def test_gm_def)
  have l: "list_all (\<lambda>c. \<not> is_discovery c)
             [StartExplore, RevealLocation 1600000000000 ok_env ''a2'' ''p1'', StopExplore]"
    by simp
  have r: "getHashesPerSec pending_gm = Num 7"
    by (simp add: getHashesPerSec_def pending_gm_def test_gm_def)
  show ?thesis
    using stopExplore_zeroes_rate [OF m l] r by simp
qed

section \<open>The refetch of a confirmed transaction\<close>
















end
